theory Spec2Isabelle
  imports Main "HOL-Library.Finite_Map"
begin

section \<open>Common types\<close>

text \<open>
  A JavaScript exception raised with \<^verbatim>\<open>throw new Error(message)\<close> is the value
  \<open>Error message\<close>, and \<open>TypeError\<close> is what reading a property of \<open>undefined\<close> raises;
  a function that may throw returns \<open>js_error + 'a\<close>, with \<open>Inl\<close> for the exception.
  The services are used from one sequential flow, so an \<^verbatim>\<open>async\<close> method is
  modelled by the result its promise settles to.
\<close>

datatype js_error = Error string | TypeError string

text \<open>\<^verbatim>\<open>String.prototype.startsWith\<close> and \<^verbatim>\<open>substring(0, n)\<close>, on strings as
  character lists (the source's strings count UTF-16 code units, which for ASCII text
  are the characters).\<close>

definition startsWith :: "string \<Rightarrow> string \<Rightarrow> bool" where
  "startsWith s p = (take (length p) s = p)"

definition substring0 :: "string \<Rightarrow> nat \<Rightarrow> string" where
  "substring0 s n = take n s"

text \<open>\<^verbatim>\<open>String.prototype.toLowerCase\<close> on the ASCII letters (addresses are ASCII).\<close>

definition lower_char :: "char \<Rightarrow> char" where
  "lower_char c =
     (if 65 \<le> (of_char c :: nat) \<and> (of_char c :: nat) \<le> 90
      then char_of ((of_char c :: nat) + 32) else c)"

definition toLowerCase :: "string \<Rightarrow> string" where
  "toLowerCase s = map lower_char s"

section \<open>MemoryStorageStrategy\<close>

text \<open>
  \<^verbatim>\<open>private storage: Map<string, string> = new Map()\<close>. A JavaScript \<open>Map\<close> is a
  finite map; \<open>get\<close> of an absent key is \<open>undefined\<close>, here \<open>None\<close>.
\<close>

record MemoryStorageStrategy =
  storage :: "(string, string) fmap"

definition new_MemoryStorageStrategy :: MemoryStorageStrategy where
  "new_MemoryStorageStrategy = \<lparr>storage = fmempty\<rparr>"

text \<open>
  \<^verbatim>\<open>return this.storage.get(key) || null\<close>: the operator \<open>||\<close> yields its right operand
  when the left one is falsy, and the falsy values of type \<open>string | undefined\<close> are
  \<open>undefined\<close> and the empty string. \<open>None\<close> is \<open>null\<close>.
\<close>

definition getItem :: "MemoryStorageStrategy \<Rightarrow> string \<Rightarrow> string option" where
  "getItem this key =
     (case fmlookup (storage this) key of
        None \<Rightarrow> None
      | Some v \<Rightarrow> if v = [] then None else Some v)"

definition setItem :: "MemoryStorageStrategy \<Rightarrow> string \<Rightarrow> string \<Rightarrow> MemoryStorageStrategy" where
  "setItem this key v = this\<lparr>storage := fmupd key v (storage this)\<rparr>"

definition removeItem :: "MemoryStorageStrategy \<Rightarrow> string \<Rightarrow> MemoryStorageStrategy" where
  "removeItem this key = this\<lparr>storage := fmdrop key (storage this)\<rparr>"

definition clear :: "MemoryStorageStrategy \<Rightarrow> MemoryStorageStrategy" where
  "clear this = this\<lparr>storage := fmempty\<rparr>"

definition getSize :: "MemoryStorageStrategy \<Rightarrow> nat" where
  "getSize this = fcard (fmdom (storage this))"

section \<open>WalletService\<close>

text \<open>
  A viem \<open>Account\<close>: its address and its optional \<open>signMessage\<close> method (the source
  tests \<^verbatim>\<open>!account.signMessage\<close>). The method belongs to the viem library; it takes the
  raw hex message and returns the signature or throws.
\<close>

record Account =
  address :: string
  signMessage :: "(string \<Rightarrow> js_error + string) option"

record WalletData =
  privateKey :: string
  account :: Account

text \<open>
  The viem and signers libraries are parameters of the model: \<open>generatePrivateKey\<close> draws
  the next key from a source of randomness \<open>'r\<close>, \<open>privateKeyToAccount\<close> derives the
  account, \<open>EthWallet\<close> is the constant \<^verbatim>\<open>AUTHENTICATOR_TYPE.EthWallet\<close>.
\<close>

record 'r viem =
  generatePrivateKey :: "'r \<Rightarrow> string \<times> 'r"
  privateKeyToAccount :: "string \<Rightarrow> Account"
  EthWallet :: string

text \<open>\<^verbatim>\<open>private wallets: Map<string, WalletData> = new Map()\<close>, together with the state of
  the randomness the service draws keys from.\<close>

record 'r WalletService =
  wallets :: "(string, WalletData) fmap"
  rng :: 'r

definition new_WalletService :: "'r \<Rightarrow> 'r WalletService" where
  "new_WalletService r = \<lparr>wallets = fmempty, rng = r\<rparr>"

definition createWallet ::
  "'r viem \<Rightarrow> 'r WalletService \<Rightarrow> string \<Rightarrow> string \<times> 'r WalletService" where
  "createWallet V this userId =
     (case fmlookup (wallets this) userId of
        Some existingWallet \<Rightarrow> (address (account existingWallet), this)
      | None \<Rightarrow>
          (let (pk, r') = generatePrivateKey V (rng this);
               acc = privateKeyToAccount V pk
           in (address acc,
               this\<lparr>wallets := fmupd userId \<lparr>privateKey = pk, account = acc\<rparr> (wallets this),
                    rng := r'\<rparr>)))"

text \<open>\<^verbatim>\<open>return this.wallets.get(userId) || null\<close>: a \<open>WalletData\<close> object is never
  falsy, so the result is \<open>null\<close> exactly for an absent key.\<close>

definition getWallet :: "'r WalletService \<Rightarrow> string \<Rightarrow> WalletData option" where
  "getWallet this userId = fmlookup (wallets this) userId"

record SignerConfig =
  authenticatorType :: string
  authenticator :: string
  signMessageFn :: "string \<Rightarrow> js_error + string"

text \<open>The \<open>signMessage\<close> closure that \<open>getSignerConfig\<close> returns, over the captured
  \<open>account\<close>.\<close>

definition signMessage_closure :: "Account \<Rightarrow> string \<Rightarrow> js_error + string" where
  "signMessage_closure acc hexMessage =
     (if \<not> startsWith hexMessage ''0x'' then
        Inl (Error (''Invalid message format: expected hex string with 0x prefix, got: ''
                    @ substring0 hexMessage 50 @ ''...''))
      else case signMessage acc of
        None \<Rightarrow> Inl (Error ''Account does not have a signMessage method'')
      | Some sign \<Rightarrow> sign hexMessage)"

definition getSignerConfig ::
  "'r viem \<Rightarrow> 'r WalletService \<Rightarrow> string \<Rightarrow> js_error + SignerConfig" where
  "getSignerConfig V this userId =
     (case getWallet this userId of
        None \<Rightarrow>
          Inl (Error (''Wallet not found for user: '' @ userId @ ''. Call createWallet() first.''))
      | Some wallet \<Rightarrow>
          Inr \<lparr>authenticatorType = EthWallet V,
               authenticator = toLowerCase (address (account wallet)),
               signMessageFn = signMessage_closure (account wallet)\<rparr>)"

definition deleteWallet :: "'r WalletService \<Rightarrow> string \<Rightarrow> 'r WalletService" where
  "deleteWallet this userId = this\<lparr>wallets := fmdrop userId (wallets this)\<rparr>"

definition clearAll :: "'r WalletService \<Rightarrow> 'r WalletService" where
  "clearAll this = this\<lparr>wallets := fmempty\<rparr>"

definition getWalletCount :: "'r WalletService \<Rightarrow> nat" where
  "getWalletCount this = fcard (fmdom (wallets this))"

text \<open>A history of the calls that change a wallet service, run from left to right.\<close>

datatype wallet_call = CreateWallet string | DeleteWallet string | ClearAll

fun wallet_step :: "'r viem \<Rightarrow> 'r WalletService \<Rightarrow> wallet_call \<Rightarrow> 'r WalletService" where
  "wallet_step V this (CreateWallet u) = snd (createWallet V this u)"
| "wallet_step V this (DeleteWallet u) = deleteWallet this u"
| "wallet_step V this ClearAll = clearAll this"

definition wallet_run :: "'r viem \<Rightarrow> 'r WalletService \<Rightarrow> wallet_call list \<Rightarrow> 'r WalletService" where
  "wallet_run V this cs = foldl (wallet_step V) this cs"

text \<open>The payload format of the specification: \<open>0x\<close> followed by hexadecimal digits
  only.\<close>

definition is_hex_digit :: "char \<Rightarrow> bool" where
  "is_hex_digit c = (c \<in> set ''0123456789abcdefABCDEF'')"

definition is_0x_hex_string :: "string \<Rightarrow> bool" where
  "is_0x_hex_string p = (startsWith p ''0x'' \<and> list_all is_hex_digit (drop 2 p))"

section \<open>Configuration\<close>

text \<open>
  \<open>AppConfig\<close> (defaultConfig.ts) and \<open>AbstraxionServiceConfig\<close> share their first
  fields; they differ in which of them are optional: \<open>'u\<close> is \<open>string\<close> in the first
  and \<open>string option\<close> in the second, and so is the address prefix \<open>'p\<close>.
  An optional field \<^verbatim>\<open>f?: T\<close> is a \<open>T option\<close>, \<open>None\<close> for \<open>undefined\<close>.
\<close>

record 'p SmartAccountContract =
  codeId :: int
  checksum :: string
  addressPrefix :: 'p

record ('u, 'p) ChainConfig =
  chainId :: string
  rpcUrl :: 'u
  restUrl :: 'u
  gasPrice :: 'u
  aaApiUrl :: string
  feeGranter :: "string option"
  treasury :: "string option"
  smartAccountContract :: "'p SmartAccountContract"

type_synonym AppConfig = "(string, string) ChainConfig"

text \<open>\<^verbatim>\<open>!x\<close> for an optional string: \<open>undefined\<close> and the empty string are falsy.\<close>

definition falsy :: "string option \<Rightarrow> bool" where
  "falsy x = (x = None \<or> x = Some [])"

definition validateConfig :: "AppConfig \<Rightarrow> js_error + unit" where
  "validateConfig config =
     (if checksum (smartAccountContract config) = [] then
        Inl (Error ''CHECKSUM environment variable is required for smart account contract'')
      else if falsy (feeGranter config) then
        Inl (Error ''FEE_GRANTER_ADDRESS environment variable is required for signer mode'')
      else Inr ())"

text \<open>Objects that the service only holds and hands on (the two strategies, the
  \<open>getSignerConfig\<close> callback) are object references.\<close>

type_synonym ref = nat

type_synonym coin = "string \<times> string"

datatype contract_grant = ContractAddress string | ContractAmounts string "coin list"

record Indexer =
  indexer_type :: string
  indexer_url :: string
  authToken :: "string option"
  indexer_codeId :: "int option"

record AbstraxionServiceConfig = "(string option, string option) ChainConfig" +
  getSignerConfigFn :: ref
  indexer :: "Indexer option"
  treasuryIndexer :: "string option"
  contracts :: "contract_grant list option"
  bank :: "coin list option"
  stake :: "bool option"

text \<open>The \<open>AbstraxionConfig\<close> that \<open>initialize\<close> builds for the library.\<close>

record SignerAuthentication =
  sa_aaApiUrl :: string
  sa_getSignerConfig :: ref
  sa_smartAccountContract :: "string SmartAccountContract"
  sa_indexer :: "Indexer option"
  sa_treasuryIndexer :: "string option"

datatype authentication = Signer SignerAuthentication | NotSigner string

record AbstraxionConfig =
  ac_chainId :: string
  ac_rpcUrl :: "string option"
  ac_restUrl :: "string option"
  ac_gasPrice :: "string option"
  ac_feeGranter :: "string option"
  ac_treasury :: "string option"
  ac_contracts :: "contract_grant list option"
  ac_bank :: "coin list option"
  ac_stake :: "bool option"
  ac_authentication :: "authentication option"

section \<open>AbstraxionService\<close>

record ConnectedAccount =
  granterAddress :: string
  granteeAddress :: string

text \<open>
  Modelled from the spec: the state type that \<open>SignerController.getState()\<close> returns
  (declared in the abstraxion library, not in this repository). The specification's
  ConnectionState is a tagged variant of \<open>Idle\<close>, \<open>Connecting\<close>,
  \<open>Connected{granterAddress, granteeAddress, signingHandle}\<close> and \<open>Error{message}\<close>;
  the source reads \<open>state.status\<close>, \<open>state.account\<close>, \<open>state.signingClient\<close> (tested
  for presence, hence optional) and \<open>state.error\<close>.
\<close>

datatype 'cl AccountState =
    StIdle
  | StConnecting
  | StConnected ConnectedAccount "'cl option"
  | StError string

fun status :: "'cl AccountState \<Rightarrow> string" where
  "status StIdle = ''idle''"
| "status StConnecting = ''connecting''"
| "status (StConnected a cl) = ''connected''"
| "status (StError m) = ''error''"

text \<open>The property reads \<open>state.account\<close>, \<open>state.signingClient\<close> and \<open>state.error\<close>;
  \<open>None\<close> where the variant has no such property (\<open>undefined\<close>).\<close>

fun state_account :: "'cl AccountState \<Rightarrow> ConnectedAccount option" where
  "state_account (StConnected a cl) = Some a"
| "state_account _ = None"

fun state_signingClient :: "'cl AccountState \<Rightarrow> 'cl option" where
  "state_signingClient (StConnected a cl) = cl"
| "state_signingClient _ = None"

fun state_error :: "'cl AccountState \<Rightarrow> string option" where
  "state_error (StError m) = Some m"
| "state_error _ = None"

text \<open>
  The abstraxion library is a parameter of the model: \<open>'a\<close> is an \<open>AbstraxionAuth\<close>
  object, \<open>'c\<close> a \<open>SignerController\<close>, \<open>'cl\<close> a signing client. A call that may throw
  returns a sum; a controller method returns its outcome and the controller as the
  method left it. \<open>getState\<close> is a read of the controller's state snapshot. The
  controller's \<open>disconnect()\<close> settles without rejecting (the controller, which is always
  the one \<open>SignerController.fromConfig\<close> built, deals with the failures of its own
  session cleanup), so it returns the controller as it left it and no outcome.
\<close>

type_synonym configure_args =
  "string option \<times> contract_grant list option \<times> bool option \<times> coin list option \<times>
   string option \<times> string option \<times> string option \<times> string option"

record ('a, 'c, 'cl) abstraxion =
  normalizeAbstraxionConfig :: "AbstraxionConfig \<Rightarrow> js_error + AbstraxionConfig"
  new_AbstraxionAuth :: "ref \<Rightarrow> ref \<Rightarrow> js_error + 'a"
  configureAbstraxionInstance :: "'a \<Rightarrow> configure_args \<Rightarrow> js_error + 'a"
  fromConfig :: "AbstraxionConfig \<Rightarrow> ref \<Rightarrow> 'a \<Rightarrow> js_error + 'c"
  ctl_initialize :: "'c \<Rightarrow> (js_error + unit) \<times> 'c"
  ctl_connect :: "'c \<Rightarrow> (js_error + unit) \<times> 'c"
  ctl_disconnect :: "'c \<Rightarrow> 'c"
  ctl_destroy :: "'c \<Rightarrow> (js_error + unit) \<times> 'c"
  ctl_getState :: "'c \<Rightarrow> 'cl AccountState"

text \<open>The calls into the library that have effects, in the order they are made.\<close>

datatype library_call =
    NormalizeAbstraxionConfig
  | NewAbstraxionAuth
  | ConfigureAbstraxionInstance
  | FromConfig
  | ControllerInitialize
  | ControllerConnect
  | ControllerDisconnect
  | ControllerDestroy

record 'c AbstraxionService =
  controller :: "'c option"
  storageStrategy :: ref
  redirectStrategy :: ref
  config :: AbstraxionServiceConfig

text \<open>The constructor stores its three arguments; the controller field starts as
  \<open>null\<close>. It has no \<open>throw\<close>.\<close>

definition new_AbstraxionService ::
  "AbstraxionServiceConfig \<Rightarrow> ref \<Rightarrow> ref \<Rightarrow> 'c AbstraxionService" where
  "new_AbstraxionService cfg storageStrategy' redirectStrategy' =
     \<lparr>controller = None, storageStrategy = storageStrategy',
      redirectStrategy = redirectStrategy', config = cfg\<rparr>"

text \<open>\<^verbatim>\<open>this.config.smartAccountContract.addressPrefix || "xion"\<close>\<close>

definition addressPrefix_or_xion :: "string option \<Rightarrow> string" where
  "addressPrefix_or_xion p = (case p of None \<Rightarrow> ''xion'' | Some s \<Rightarrow> if s = [] then ''xion'' else s)"

definition build_AbstraxionConfig :: "AbstraxionServiceConfig \<Rightarrow> AbstraxionConfig" where
  "build_AbstraxionConfig cfg =
     \<lparr>ac_chainId = chainId cfg,
      ac_rpcUrl = rpcUrl cfg,
      ac_restUrl = restUrl cfg,
      ac_gasPrice = gasPrice cfg,
      ac_feeGranter = feeGranter cfg,
      ac_treasury = treasury cfg,
      ac_contracts = contracts cfg,
      ac_bank = bank cfg,
      ac_stake = stake cfg,
      ac_authentication = Some (Signer
        \<lparr>sa_aaApiUrl = aaApiUrl cfg,
         sa_getSignerConfig = getSignerConfigFn cfg,
         sa_smartAccountContract =
           \<lparr>codeId = codeId (smartAccountContract cfg),
            checksum = checksum (smartAccountContract cfg),
            addressPrefix = addressPrefix_or_xion (addressPrefix (smartAccountContract cfg))\<rparr>,
         sa_indexer = indexer cfg,
         sa_treasuryIndexer = treasuryIndexer cfg\<rparr>)\<rparr>"

text \<open>
  Each method returns its outcome, the service as the method left it, and the library
  calls it made. An exception leaves the method at once, so the assignments after the
  throwing call are not made.
\<close>

definition initialize ::
  "('a, 'c, 'cl) abstraxion \<Rightarrow> 'c AbstraxionService \<Rightarrow>
   (js_error + unit) \<times> 'c AbstraxionService \<times> library_call list" where
  "initialize L this =
     (case controller this of
        Some c \<Rightarrow> (Inr (), this, [])
      | None \<Rightarrow>
         (case normalizeAbstraxionConfig L (build_AbstraxionConfig (config this)) of
            Inl e \<Rightarrow> (Inl e, this, [NormalizeAbstraxionConfig])
          | Inr normalizedConfig \<Rightarrow>
             (case new_AbstraxionAuth L (storageStrategy this) (redirectStrategy this) of
                Inl e \<Rightarrow> (Inl e, this, [NormalizeAbstraxionConfig, NewAbstraxionAuth])
              | Inr abstraxionAuth \<Rightarrow>
                 (let signerAuth =
                        (case ac_authentication normalizedConfig of
                           Some (Signer sa) \<Rightarrow> Some sa
                         | _ \<Rightarrow> None);
                      treasuryIndexerUrl =
                        (case signerAuth of None \<Rightarrow> None | Some sa \<Rightarrow> sa_treasuryIndexer sa)
                  in case configureAbstraxionInstance L abstraxionAuth
                            (ac_rpcUrl normalizedConfig, ac_contracts normalizedConfig,
                             ac_stake normalizedConfig, ac_bank normalizedConfig, None,
                             ac_treasury normalizedConfig, treasuryIndexerUrl,
                             ac_gasPrice normalizedConfig) of
                       Inl e \<Rightarrow>
                         (Inl e, this,
                          [NormalizeAbstraxionConfig, NewAbstraxionAuth,
                           ConfigureAbstraxionInstance])
                     | Inr abstraxionAuth' \<Rightarrow>
                        (case fromConfig L normalizedConfig (storageStrategy this)
                                abstraxionAuth' of
                           Inl e \<Rightarrow>
                             (Inl e, this,
                              [NormalizeAbstraxionConfig, NewAbstraxionAuth,
                               ConfigureAbstraxionInstance, FromConfig])
                         | Inr c \<Rightarrow>
                            (let (r, c') = ctl_initialize L c
                             in (r, this\<lparr>controller := Some c'\<rparr>,
                                 [NormalizeAbstraxionConfig, NewAbstraxionAuth,
                                  ConfigureAbstraxionInstance, FromConfig,
                                  ControllerInitialize])))))))"

definition connect ::
  "('a, 'c, 'cl) abstraxion \<Rightarrow> 'c AbstraxionService \<Rightarrow>
   (js_error + unit) \<times> 'c AbstraxionService \<times> library_call list" where
  "connect L this =
     (let (r0, this0, calls0) =
            (if controller this = None then initialize L this else (Inr (), this, []))
      in case r0 of
           Inl e \<Rightarrow> (Inl e, this0, calls0)
         | Inr _ \<Rightarrow>
            (case controller this0 of
               None \<Rightarrow> (Inl (Error ''Failed to initialize controller''), this0, calls0)
             | Some c \<Rightarrow>
                (let (r, c') = ctl_connect L c
                 in (r, this0\<lparr>controller := Some c'\<rparr>, calls0 @ [ControllerConnect]))))"


definition destroy ::
  "('a, 'c, 'cl) abstraxion \<Rightarrow> 'c AbstraxionService \<Rightarrow>
   (js_error + unit) \<times> 'c AbstraxionService \<times> library_call list" where
  "destroy L this =
     (case controller this of
        None \<Rightarrow> (Inr (), this, [])
      | Some c \<Rightarrow>
         (case ctl_destroy L c of
            (Inl e, c') \<Rightarrow> (Inl e, this\<lparr>controller := Some c'\<rparr>, [ControllerDestroy])
          | (Inr _, c') \<Rightarrow> (Inr (), this\<lparr>controller := None\<rparr>, [ControllerDestroy])))"

definition getState :: "('a, 'c, 'cl) abstraxion \<Rightarrow> 'c AbstraxionService \<Rightarrow> 'cl AccountState" where
  "getState L this =
     (case controller this of None \<Rightarrow> StIdle | Some c \<Rightarrow> ctl_getState L c)"

definition isConnected :: "('a, 'c, 'cl) abstraxion \<Rightarrow> 'c AbstraxionService \<Rightarrow> bool" where
  "isConnected L this = (status (getState L this) = ''connected'')"

definition not_connected :: js_error where
  "not_connected = Error ''Not connected. Call connect() first.''"

definition no_signing_client :: js_error where
  "no_signing_client =
     Error ''Not connected or signing client not available. Call connect() first.''"

definition undefined_property :: "string \<Rightarrow> js_error" where
  "undefined_property p =
     TypeError (''Cannot read properties of undefined (reading '' @
                [CHR 0x27] @ p @ [CHR 0x27] @ '')'')"

definition getGranterAddress ::
  "('a, 'c, 'cl) abstraxion \<Rightarrow> 'c AbstraxionService \<Rightarrow> js_error + string" where
  "getGranterAddress L this =
     (let state = getState L this
      in if status state = ''connected'' then
           (case state_account state of
              Some a \<Rightarrow> Inr (granterAddress a)
            | None \<Rightarrow> Inl (undefined_property ''granterAddress''))
         else Inl not_connected)"

definition getGranteeAddress ::
  "('a, 'c, 'cl) abstraxion \<Rightarrow> 'c AbstraxionService \<Rightarrow> js_error + string" where
  "getGranteeAddress L this =
     (let state = getState L this
      in if status state = ''connected'' then
           (case state_account state of
              Some a \<Rightarrow> Inr (granteeAddress a)
            | None \<Rightarrow> Inl (undefined_property ''granteeAddress''))
         else Inl not_connected)"

definition getSigningClient ::
  "('a, 'c, 'cl) abstraxion \<Rightarrow> 'c AbstraxionService \<Rightarrow> js_error + 'cl" where
  "getSigningClient L this =
     (let state = getState L this
      in if status state = ''connected'' \<and> state_signingClient state \<noteq> None then
           (case state_signingClient state of
              Some cl \<Rightarrow> Inr cl
            | None \<Rightarrow> Inl no_signing_client)
         else Inl no_signing_client)"

definition getError :: "('a, 'c, 'cl) abstraxion \<Rightarrow> 'c AbstraxionService \<Rightarrow> string option" where
  "getError L this =
     (let state = getState L this
      in if status state = ''error'' then state_error state else None)"

section \<open>The entry point\<close>

text \<open>The object literal that \<open>main\<close> passes to the \<open>AbstraxionService\<close> constructor;
  \<open>cb\<close> is the closure \<^verbatim>\<open>() => walletService.getSignerConfig(userId)\<close>.\<close>

definition service_config_of :: "AppConfig \<Rightarrow> ref \<Rightarrow> AbstraxionServiceConfig" where
  "service_config_of d cb =
     \<lparr>chainId = chainId d,
      rpcUrl = Some (rpcUrl d),
      restUrl = Some (restUrl d),
      gasPrice = Some (gasPrice d),
      aaApiUrl = aaApiUrl d,
      feeGranter = feeGranter d,
      treasury = treasury d,
      smartAccountContract =
        \<lparr>codeId = codeId (smartAccountContract d),
         checksum = checksum (smartAccountContract d),
         addressPrefix = Some (addressPrefix (smartAccountContract d))\<rparr>,
      getSignerConfigFn = cb,
      indexer = None,
      treasuryIndexer = None,
      contracts = None,
      bank = None,
      stake = None\<rparr>"

text \<open>The \<open>try\<close> block of \<open>main\<close>: the first exception ends it.\<close>

definition main_try ::
  "('a, 'c, 'cl) abstraxion \<Rightarrow> 'c AbstraxionService \<Rightarrow>
   (js_error + unit) \<times> 'c AbstraxionService \<times> library_call list" where
  "main_try L svc =
     (case initialize L svc of
        (Inl e, svc1, calls1) \<Rightarrow> (Inl e, svc1, calls1)
      | (Inr _, svc1, calls1) \<Rightarrow>
         (case (if \<not> isConnected L svc1 then connect L svc1 else (Inr (), svc1, [])) of
            (Inl e, svc2, calls2) \<Rightarrow> (Inl e, svc2, calls1 @ calls2)
          | (Inr _, svc2, calls2) \<Rightarrow>
             (case getGranterAddress L svc2 of
                Inl e \<Rightarrow> (Inl e, svc2, calls1 @ calls2)
              | Inr granterAddress' \<Rightarrow>
                 (case getGranteeAddress L svc2 of
                    Inl e \<Rightarrow> (Inl e, svc2, calls1 @ calls2)
                  | Inr granteeAddress' \<Rightarrow>
                     (case getSigningClient L svc2 of
                        Inl e \<Rightarrow> (Inl e, svc2, calls1 @ calls2)
                      | Inr signingClient \<Rightarrow> (Inr (), svc2, calls1 @ calls2))))))"

text \<open>
  How \<open>main\<close> ends: it returns, or the process exits with a code. A failed validation
  exits with 1 at once; otherwise the \<open>catch\<close> block only logs the error of the \<open>try\<close>
  block, and the \<open>finally\<close> block destroys the service and deletes the wallet; an
  exception there rejects \<open>main\<close>, whose handler exits with 1. The result is how \<open>main\<close>
  ends and the library calls it made; console output and the wallet service, which is
  local to \<open>main\<close>, are not part of it.
\<close>

datatype outcome = Returned | ProcessExit int

definition main ::
  "('a, 'c, 'cl) abstraxion \<Rightarrow> 'r viem \<Rightarrow> AppConfig \<Rightarrow> 'r \<Rightarrow> ref \<Rightarrow> ref \<Rightarrow> ref \<Rightarrow>
   outcome \<times> library_call list" where
  "main L V defaultConfig r storageRef redirectRef cb =
     (case validateConfig defaultConfig of
        Inl e \<Rightarrow> (ProcessExit 1, [])
      | Inr _ \<Rightarrow>
         (let (walletAddress, walletService) =
                createWallet V (new_WalletService r) ''demo-user-123'';
              abstraxionService =
                new_AbstraxionService (service_config_of defaultConfig cb) storageRef redirectRef;
              (r1, svc1, calls1) = main_try L abstraxionService;
              (r2, svc2, calls2) = destroy L svc1
          in case r2 of
               Inl e \<Rightarrow> (ProcessExit 1, calls1 @ calls2)
             | Inr _ \<Rightarrow> (Returned, calls1 @ calls2)))"

section \<open>Test doubles\<close>

text \<open>
  A scripted stand-in for the abstraxion library, for evaluating the services on
  concrete inputs: a controller is its own state snapshot, every call succeeds,
  \<open>connect\<close> reaches the connected state with a signing client.
\<close>

definition demo_account :: ConnectedAccount where
  "demo_account = \<lparr>granterAddress = ''xion1granter'', granteeAddress = ''xion1grantee''\<rparr>"

definition stub_abstraxion :: "(unit, nat AccountState, nat) abstraxion" where
  "stub_abstraxion =
     \<lparr>normalizeAbstraxionConfig = Inr,
      new_AbstraxionAuth = (\<lambda>s r. Inr ()),
      configureAbstraxionInstance = (\<lambda>a args. Inr a),
      fromConfig = (\<lambda>c s a. Inr StIdle),
      ctl_initialize = (\<lambda>c. (Inr (), c)),
      ctl_connect = (\<lambda>c. (Inr (), StConnected demo_account (Some 1))),
      ctl_disconnect = (\<lambda>c. StIdle),
      ctl_destroy = (\<lambda>c. (Inr (), StIdle)),
      ctl_getState = (\<lambda>c. c)\<rparr>"

text \<open>A configuration with no fee granter, and a complete one.\<close>

definition app_config_no_feeGranter :: AppConfig where
  "app_config_no_feeGranter =
     \<lparr>chainId = ''xion-testnet-2'',
      rpcUrl = ''https://rpc.xion-testnet-2.burnt.com:443'',
      restUrl = ''https://api.xion-testnet-2.burnt.com'',
      gasPrice = ''0.001uxion'',
      aaApiUrl = ''https://aa-api.xion-testnet-2.burnt.com'',
      feeGranter = None,
      treasury = None,
      smartAccountContract = \<lparr>codeId = 1, checksum = ''ABCD'', addressPrefix = ''xion''\<rparr>\<rparr>"

definition app_config_complete :: AppConfig where
  "app_config_complete = app_config_no_feeGranter\<lparr>feeGranter := Some ''xion1feegranter''\<rparr>"

definition service_with :: "nat AccountState option \<Rightarrow> nat AccountState AbstraxionService" where
  "service_with c =
     (new_AbstraxionService (service_config_of app_config_complete 3) 1 2)\<lparr>controller := c\<rparr>"

text \<open>A stand-in for viem: keys are drawn from a counter, and the account of a key signs
  by wrapping the payload.\<close>

definition stub_sign :: "string \<Rightarrow> js_error + string" where
  "stub_sign m = Inr (''sig('' @ m @ '')'')"

definition stub_account :: "string \<Rightarrow> Account" where
  "stub_account pk = \<lparr>address = ''0xADDR'' @ pk, signMessage = Some stub_sign\<rparr>"

definition stub_viem :: "nat viem" where
  "stub_viem =
     \<lparr>generatePrivateKey = (\<lambda>n. (''0xkey'' @ replicate n CHR ''1'', Suc n)),
      privateKeyToAccount = stub_account,
      EthWallet = ''EthWallet''\<rparr>"

section \<open>Properties of the storage strategy\<close>

lemma getItem_after_setItem_nonempty:
  "v \<noteq> [] \<Longrightarrow> getItem (setItem this k v) k = Some v"
  by (simp add: getItem_def setItem_def)

lemma getItem_after_removeItem:
  "getItem (removeItem this k) k = None"
  by (simp add: getItem_def removeItem_def)

lemma getItem_other_key:
  "k' \<noteq> k \<Longrightarrow> getItem (setItem this k v) k' = getItem this k' \<and>
     getItem (removeItem this k) k' = getItem this k'"
  by (simp add: getItem_def setItem_def removeItem_def)

text \<open>
  C5. The round trip of the storage strategy fails for the empty string: in every
  store and for every key, \<open>getItem\<close> right after \<open>setItem\<close> of the empty string
  returns \<open>null\<close>, not the stored value. (For a non-empty value the round trip holds,
  \<open>removeItem\<close> makes the key absent and other keys are untouched: the three lemmas
  above.)
\<close>

theorem getItem_after_setItem_empty:
  "getItem (setItem this k []) k = None"
  by (simp add: getItem_def setItem_def)

section \<open>Properties of the service's accessors\<close>

lemma status_connected_iff:
  "status st = ''connected'' \<longleftrightarrow> (\<exists>a cl. st = StConnected a cl)"
  by (cases st) simp_all

lemma status_error_iff:
  "status st = ''error'' \<longleftrightarrow> (\<exists>m. st = StError m)"
  by (cases st) simp_all

text \<open>
  C1. In every state of the service whose \<open>getState()\<close> does not report the status
  \<open>connected\<close>, \<open>getGranterAddress()\<close>, \<open>getGranteeAddress()\<close> and \<open>getSigningClient()\<close>
  each throw the service's not-connected error; when the status is \<open>connected\<close>, the
  state is a connected variant and the two address accessors return the granter and the
  grantee address stored in it.
\<close>

theorem accessors_by_status:
  "(status (getState L this) \<noteq> ''connected'' \<longrightarrow>
      getGranterAddress L this = Inl (Error ''Not connected. Call connect() first.'') \<and>
      getGranteeAddress L this = Inl (Error ''Not connected. Call connect() first.'') \<and>
      getSigningClient L this =
        Inl (Error ''Not connected or signing client not available. Call connect() first.''))
   \<and> (status (getState L this) = ''connected'' \<longrightarrow>
        (\<exists>a cl. getState L this = StConnected a cl \<and>
           getGranterAddress L this = Inr (granterAddress a) \<and>
           getGranteeAddress L this = Inr (granteeAddress a)))"
  by (cases "getState L this")
     (simp_all add: getGranterAddress_def getGranteeAddress_def getSigningClient_def
        not_connected_def no_signing_client_def)

theorem accessors_by_status_witness:
  "getGranterAddress stub_abstraxion (service_with None) =
     Inl (Error ''Not connected. Call connect() first.'')
   \<and> getGranteeAddress stub_abstraxion (service_with (Some (StError ''boom''))) =
     Inl (Error ''Not connected. Call connect() first.'')
   \<and> getGranterAddress stub_abstraxion
        (service_with (Some (StConnected demo_account None))) = Inr ''xion1granter''
   \<and> getGranteeAddress stub_abstraxion
        (service_with (Some (StConnected demo_account None))) = Inr ''xion1grantee''"
  using accessors_by_status [of stub_abstraxion "service_with None"]
    accessors_by_status [of stub_abstraxion "service_with (Some (StError ''boom''))"]
    accessors_by_status [of stub_abstraxion "service_with (Some (StConnected demo_account None))"]
  by (simp add: getState_def service_with_def new_AbstraxionService_def stub_abstraxion_def
      demo_account_def)

text \<open>
  C9. The observation accessors \<open>getState()\<close>, \<open>isConnected()\<close> and \<open>getError()\<close> have no
  failing branch (they are total functions with no error result). On a freshly
  constructed service \<open>getState()\<close> is \<open>{status: "idle"}\<close>, \<open>isConnected()\<close> is false and
  \<open>getError()\<close> is \<open>null\<close>; in any state \<open>getError()\<close> is non-null exactly when the status
  is \<open>error\<close>, and then it is the state's message.
\<close>

theorem observation_accessors:
  "getState L (new_AbstraxionService cfg s r) = StIdle
   \<and> status (getState L (new_AbstraxionService cfg s r)) = ''idle''
   \<and> \<not> isConnected L (new_AbstraxionService cfg s r)
   \<and> getError L (new_AbstraxionService cfg s r) = None
   \<and> ((getError L this \<noteq> None) = (status (getState L this) = ''error''))
   \<and> (\<forall>m. getState L this = StError m \<longrightarrow> getError L this = Some m)"
  by (cases "getState L this")
     (simp_all add: getState_def isConnected_def getError_def new_AbstraxionService_def)

theorem observation_accessors_witness:
  "getError stub_abstraxion (service_with (Some (StError ''boom''))) = Some ''boom''
   \<and> getError stub_abstraxion (service_with (Some StConnecting)) = None
   \<and> getState stub_abstraxion
       (new_AbstraxionService (service_config_of app_config_complete 3) 1 2) = StIdle"
proof -
  have e: "getState stub_abstraxion (service_with (Some (StError ''boom''))) = StError ''boom''"
    by (simp add: getState_def service_with_def stub_abstraxion_def)
  have n: "status (getState stub_abstraxion (service_with (Some StConnecting)))
      \<noteq> ''error''"
    by (simp add: getState_def service_with_def stub_abstraxion_def)
  note t1 = observation_accessors
      [of stub_abstraxion "service_config_of app_config_complete 3" 1 2
        "service_with (Some (StError ''boom''))"]
  note t2 = observation_accessors
      [of stub_abstraxion "service_config_of app_config_complete 3" 1 2
        "service_with (Some StConnecting)"]
  have 1: "getError stub_abstraxion (service_with (Some (StError ''boom''))) = Some ''boom''"
    using t1 e by blast
  have 2: "getError stub_abstraxion (service_with (Some StConnecting)) = None"
    using t2 n by blast
  have 3: "getState stub_abstraxion
       (new_AbstraxionService (service_config_of app_config_complete 3) 1 2) = StIdle"
    using t1 by blast
  show ?thesis using 1 2 3 by (intro conjI)
qed

text \<open>
  C10. \<open>getSigningClient()\<close> returns a client if and only if the status is \<open>connected\<close>
  and the state's \<open>signingClient\<close> is present, and then it returns that client; in a
  connected state without a signing client it throws its not-connected error although
  \<open>isConnected()\<close> is true.
\<close>

theorem getSigningClient_iff:
  "((\<exists>cl. getSigningClient L this = Inr cl) =
      (status (getState L this) = ''connected'' \<and>
       state_signingClient (getState L this) \<noteq> None))
   \<and> (\<forall>a cl. getState L this = StConnected a (Some cl) \<longrightarrow> getSigningClient L this = Inr cl)
   \<and> (\<forall>a. getState L this = StConnected a None \<longrightarrow>
         getSigningClient L this =
           Inl (Error ''Not connected or signing client not available. Call connect() first.'')
         \<and> isConnected L this)"
  by (cases "getState L this")
     (auto simp: getSigningClient_def isConnected_def no_signing_client_def)

theorem getSigningClient_iff_witness:
  "getSigningClient stub_abstraxion (service_with (Some (StConnected demo_account None))) =
      Inl (Error ''Not connected or signing client not available. Call connect() first.'')
   \<and> isConnected stub_abstraxion (service_with (Some (StConnected demo_account None)))
   \<and> getSigningClient stub_abstraxion (service_with (Some (StConnected demo_account (Some 1))))
      = Inr 1"
proof -
  have a: "getState stub_abstraxion (service_with (Some (StConnected demo_account None)))
      = StConnected demo_account None"
    and b: "getState stub_abstraxion (service_with (Some (StConnected demo_account (Some 1))))
      = StConnected demo_account (Some 1)"
    by (simp_all add: getState_def service_with_def stub_abstraxion_def)
  note t1 = getSigningClient_iff
        [of stub_abstraxion "service_with (Some (StConnected demo_account None))"]
  note t2 = getSigningClient_iff
        [of stub_abstraxion "service_with (Some (StConnected demo_account (Some 1)))"]
  have 1: "getSigningClient stub_abstraxion (service_with (Some (StConnected demo_account None))) =
      Inl (Error ''Not connected or signing client not available. Call connect() first.'')
   \<and> isConnected stub_abstraxion (service_with (Some (StConnected demo_account None)))"
    using t1 a by blast
  have 2: "getSigningClient stub_abstraxion
      (service_with (Some (StConnected demo_account (Some 1)))) = Inr 1"
    using t2 b by blast
  show ?thesis using 1 2 by blast
qed

section \<open>Properties of the service's lifecycle\<close>

lemma initialize_existing:
  "controller this = Some c \<Longrightarrow> initialize L this = (Inr (), this, [])"
  by (simp add: initialize_def)

lemma initialize_sets_controller:
  "initialize L this = (Inr (), this', calls) \<Longrightarrow> controller this' \<noteq> None"
  by (auto simp: initialize_def split: option.splits sum.splits prod.splits)

text \<open>
  C2. \<open>initialize()\<close> is idempotent. When a controller already exists, \<open>initialize()\<close>
  returns at once: it succeeds, leaves the service (and so its controller) as it was and
  makes no call into the library. In particular a second \<open>initialize()\<close> right after a
  first one that returned does nothing, and \<open>getState()\<close> after it is what it was after
  the first call.
\<close>

theorem initialize_idempotent:
  "(controller this \<noteq> None \<longrightarrow> initialize L this = (Inr (), this, []))
   \<and> (\<forall>this' calls. initialize L this = (Inr (), this', calls) \<longrightarrow>
         initialize L this' = (Inr (), this', []) \<and>
         getState L (fst (snd (initialize L this'))) = getState L this')"
proof (intro conjI allI impI)
  assume "controller this \<noteq> None"
  then show "initialize L this = (Inr (), this, [])"
    by (auto intro: initialize_existing)
next
  fix this' calls
  assume first: "initialize L this = (Inr (), this', calls)"
  then obtain c where "controller this' = Some c"
    using initialize_sets_controller by fastforce
  then show second: "initialize L this' = (Inr (), this', [])"
    by (rule initialize_existing)
  then show "getState L (fst (snd (initialize L this'))) = getState L this'"
    by simp
qed

theorem initialize_idempotent_witness:
  "initialize stub_abstraxion (service_with None) =
     (Inr (), service_with (Some StIdle),
      [NormalizeAbstraxionConfig, NewAbstraxionAuth, ConfigureAbstraxionInstance, FromConfig,
       ControllerInitialize])
   \<and> initialize stub_abstraxion (service_with (Some StIdle)) =
     (Inr (), service_with (Some StIdle), [])
   \<and> initialize stub_abstraxion (service_with (Some (StConnected demo_account (Some 1)))) =
     (Inr (), service_with (Some (StConnected demo_account (Some 1))), [])"
proof -
  have first: "initialize stub_abstraxion (service_with None) =
     (Inr (), service_with (Some StIdle),
      [NormalizeAbstraxionConfig, NewAbstraxionAuth, ConfigureAbstraxionInstance, FromConfig,
       ControllerInitialize])"
    by (simp add: initialize_def service_with_def new_AbstraxionService_def stub_abstraxion_def)
  have c: "controller (service_with (Some (StConnected demo_account (Some 1)))) \<noteq> None"
    by (simp add: service_with_def)
  have second: "initialize stub_abstraxion (service_with (Some StIdle)) =
     (Inr (), service_with (Some StIdle), [])"
    using initialize_idempotent [THEN conjunct2, rule_format, OF first] by (rule conjunct1)
  have third: "initialize stub_abstraxion (service_with (Some (StConnected demo_account (Some 1)))) =
     (Inr (), service_with (Some (StConnected demo_account (Some 1))), [])"
    using initialize_idempotent [THEN conjunct1, rule_format, OF c] .
  show ?thesis
    using first second third by (intro conjI)
qed



section \<open>Properties of the wallet service\<close>

lemma createWallet_existing:
  "fmlookup (wallets this) i = Some w \<Longrightarrow> createWallet V this i = (address (account w), this)"
  by (simp add: createWallet_def)

lemma createWallet_stores:
  "createWallet V this i = (a, this') \<Longrightarrow>
     \<exists>w. fmlookup (wallets this') i = Some w \<and> address (account w) = a"
  by (auto simp: createWallet_def Let_def split: option.splits prod.splits)

lemma createWallet_fresh:
  assumes "fmlookup (wallets this) i = None"
  shows "createWallet V this i =
     (address (privateKeyToAccount V (fst (generatePrivateKey V (rng this)))),
      this\<lparr>wallets := fmupd i
               \<lparr>privateKey = fst (generatePrivateKey V (rng this)),
                account = privateKeyToAccount V (fst (generatePrivateKey V (rng this)))\<rparr>
               (wallets this),
           rng := snd (generatePrivateKey V (rng this))\<rparr>)"
  using assms by (simp add: createWallet_def Let_def split: prod.splits)

text \<open>
  C3. For every identity \<open>i\<close>, a second \<open>createWallet(i)\<close> returns the address the first
  call returned and leaves the store unchanged: the record of \<open>i\<close> is still the one whose
  address was returned and the wallet count does not grow. When \<open>i\<close> has no record, the
  first call draws a new private key, derives its account, stores the pair under \<open>i\<close>
  (one more wallet, the other identities untouched) and returns the account's address;
  when \<open>i\<close> has a record already, the first call returns its address and changes nothing.
\<close>

theorem createWallet_twice:
  assumes "createWallet V this i = (a1, this1)" and "createWallet V this1 i = (a2, this2)"
  shows "a2 = a1 \<and> this2 = this1 \<and> getWalletCount this2 = getWalletCount this1
     \<and> (\<exists>w. getWallet this2 i = Some w \<and> address (account w) = a1)
     \<and> (getWallet this i = None \<longrightarrow>
          getWallet this1 i =
            Some \<lparr>privateKey = fst (generatePrivateKey V (rng this)),
                  account = privateKeyToAccount V (fst (generatePrivateKey V (rng this)))\<rparr>
          \<and> a1 = address (privateKeyToAccount V (fst (generatePrivateKey V (rng this))))
          \<and> rng this1 = snd (generatePrivateKey V (rng this))
          \<and> getWalletCount this1 = Suc (getWalletCount this)
          \<and> (\<forall>j. j \<noteq> i \<longrightarrow> getWallet this1 j = getWallet this j))
     \<and> (\<forall>w. getWallet this i = Some w \<longrightarrow> a1 = address (account w) \<and> this1 = this)"
proof -
  obtain w where w: "fmlookup (wallets this1) i = Some w" "address (account w) = a1"
    using createWallet_stores [OF assms(1)] by blast
  have second: "a2 = a1 \<and> this2 = this1"
    using createWallet_existing [OF w(1), of V] assms(2) w(2) by simp
  have fresh: "getWallet this i = None \<longrightarrow>
          getWallet this1 i =
            Some \<lparr>privateKey = fst (generatePrivateKey V (rng this)),
                  account = privateKeyToAccount V (fst (generatePrivateKey V (rng this)))\<rparr>
          \<and> a1 = address (privateKeyToAccount V (fst (generatePrivateKey V (rng this))))
          \<and> rng this1 = snd (generatePrivateKey V (rng this))
          \<and> getWalletCount this1 = Suc (getWalletCount this)
          \<and> (\<forall>j. j \<noteq> i \<longrightarrow> getWallet this1 j = getWallet this j)"
  proof
    assume "getWallet this i = None"
    then have none: "fmlookup (wallets this) i = None"
      by (simp add: getWallet_def)
    then have "i |\<notin>| fmdom (wallets this)"
      by (rule fmdom_notI)
    then have "fcard (finsert i (fmdom (wallets this))) = Suc (fcard (fmdom (wallets this)))"
      by (simp add: fcard_finsert_disjoint)
    then show "getWallet this1 i =
            Some \<lparr>privateKey = fst (generatePrivateKey V (rng this)),
                  account = privateKeyToAccount V (fst (generatePrivateKey V (rng this)))\<rparr>
          \<and> a1 = address (privateKeyToAccount V (fst (generatePrivateKey V (rng this))))
          \<and> rng this1 = snd (generatePrivateKey V (rng this))
          \<and> getWalletCount this1 = Suc (getWalletCount this)
          \<and> (\<forall>j. j \<noteq> i \<longrightarrow> getWallet this1 j = getWallet this j)"
      using createWallet_fresh [OF none, of V] assms(1)
      by (auto simp: getWallet_def getWalletCount_def)
  qed
  have existing: "\<forall>w. getWallet this i = Some w \<longrightarrow> a1 = address (account w) \<and> this1 = this"
    using assms(1) by (auto simp: getWallet_def dest: createWallet_existing [of _ _ _ V])
  show ?thesis
    using second w fresh existing by (simp add: getWallet_def)
qed

lemma stub_first:
  "createWallet stub_viem (new_WalletService 0) ''u1'' =
     (''0xADDR0xkey'',
      \<lparr>wallets = fmupd ''u1'' \<lparr>privateKey = ''0xkey'', account = stub_account ''0xkey''\<rparr> fmempty,
       rng = Suc 0\<rparr>)"
  by (simp add: createWallet_def new_WalletService_def stub_viem_def stub_account_def)

theorem createWallet_twice_witness:
  "createWallet stub_viem (new_WalletService 0) ''u1'' =
     (''0xADDR0xkey'',
      \<lparr>wallets = fmupd ''u1'' \<lparr>privateKey = ''0xkey'', account = stub_account ''0xkey''\<rparr> fmempty,
       rng = Suc 0\<rparr>)
   \<and> createWallet stub_viem
        \<lparr>wallets = fmupd ''u1'' \<lparr>privateKey = ''0xkey'', account = stub_account ''0xkey''\<rparr> fmempty,
         rng = Suc 0\<rparr> ''u1'' =
     (''0xADDR0xkey'',
      \<lparr>wallets = fmupd ''u1'' \<lparr>privateKey = ''0xkey'', account = stub_account ''0xkey''\<rparr> fmempty,
       rng = Suc 0\<rparr>)
   \<and> getWalletCount
        \<lparr>wallets = fmupd ''u1'' \<lparr>privateKey = ''0xkey'', account = stub_account ''0xkey''\<rparr> fmempty,
         rng = Suc 0\<rparr> = Suc (getWalletCount (new_WalletService (0::nat)))"
proof -
  let ?w1 = "\<lparr>wallets = fmupd ''u1'' \<lparr>privateKey = ''0xkey'', account = stub_account ''0xkey''\<rparr>
                 fmempty, rng = Suc 0\<rparr>"
  obtain a2 w2 where second: "createWallet stub_viem ?w1 ''u1'' = (a2, w2)"
    by (cases "createWallet stub_viem ?w1 ''u1''")
  have none: "getWallet (new_WalletService (0::nat)) ''u1'' = None"
    by (simp add: getWallet_def new_WalletService_def)
  note t = createWallet_twice [OF stub_first second]
  have "a2 = ''0xADDR0xkey'' \<and> w2 = ?w1"
    using t by blast
  moreover have "getWalletCount ?w1 = Suc (getWalletCount (new_WalletService (0::nat)))"
    using t none by blast
  ultimately show ?thesis
    using stub_first second by simp
qed

lemma wallet_step_other:
  "fmlookup (wallets this) i = None \<Longrightarrow> c \<noteq> CreateWallet i \<Longrightarrow>
     fmlookup (wallets (wallet_step V this c)) i = None"
  by (cases c)
     (auto simp: createWallet_def deleteWallet_def clearAll_def Let_def
        split: option.splits prod.splits)

lemma wallet_run_other:
  "fmlookup (wallets this) i = None \<Longrightarrow> CreateWallet i \<notin> set cs \<Longrightarrow>
     fmlookup (wallets (wallet_run V this cs)) i = None"
  unfolding wallet_run_def
proof (induction cs arbitrary: this)
  case Nil
  then show ?case by simp
next
  case (Cons c cs)
  from Cons.prems have "fmlookup (wallets (wallet_step V this c)) i = None"
    by (intro wallet_step_other) auto
  with Cons show ?case by simp
qed

text \<open>
  C8. \<open>getSignerConfig(i)\<close> throws the wallet-not-found error, and returns no signer
  configuration, for every identity \<open>i\<close> without a record: after any history of calls on
  a new wallet service in which \<open>createWallet(i)\<close> does not occur, right after
  \<open>deleteWallet(i)\<close>, and in general whenever \<open>getWallet(i)\<close> is \<open>null\<close>; it returns a
  configuration exactly when there is a record.
\<close>

theorem getSignerConfig_not_found:
  "(CreateWallet i \<notin> set cs \<longrightarrow>
      getSignerConfig V (wallet_run V (new_WalletService r) cs) i =
        Inl (Error (''Wallet not found for user: '' @ i @ ''. Call createWallet() first.'')))
   \<and> getSignerConfig V (deleteWallet this i) i =
        Inl (Error (''Wallet not found for user: '' @ i @ ''. Call createWallet() first.''))
   \<and> (getWallet this i = None \<longrightarrow>
        getSignerConfig V this i =
          Inl (Error (''Wallet not found for user: '' @ i @ ''. Call createWallet() first.'')))
   \<and> ((\<exists>sc. getSignerConfig V this i = Inr sc) = (getWallet this i \<noteq> None))"
proof -
  have "CreateWallet i \<notin> set cs \<Longrightarrow>
      fmlookup (wallets (wallet_run V (new_WalletService r) cs)) i = None"
    by (rule wallet_run_other) (simp_all add: new_WalletService_def)
  then show ?thesis
    by (auto simp: getSignerConfig_def getWallet_def deleteWallet_def split: option.splits)
qed

theorem getSignerConfig_not_found_witness:
  "getSignerConfig stub_viem
     (wallet_run stub_viem (new_WalletService 0)
        [CreateWallet ''u2'', DeleteWallet ''u2'', CreateWallet ''u3'']) ''u1'' =
     Inl (Error ''Wallet not found for user: u1. Call createWallet() first.'')
   \<and> getSignerConfig stub_viem (new_WalletService 0) ''u1'' =
     Inl (Error ''Wallet not found for user: u1. Call createWallet() first.'')"
proof -
  have a: "CreateWallet ''u1'' \<notin> set [CreateWallet ''u2'', DeleteWallet ''u2'', CreateWallet ''u3'']"
    by simp
  have b: "getWallet (new_WalletService (0::nat)) ''u1'' = None"
    by (simp add: getWallet_def new_WalletService_def)
  note t = getSignerConfig_not_found [of "''u1''" _ stub_viem 0 "new_WalletService 0"]
  have 1: "getSignerConfig stub_viem
     (wallet_run stub_viem (new_WalletService 0)
        [CreateWallet ''u2'', DeleteWallet ''u2'', CreateWallet ''u3'']) ''u1'' =
     Inl (Error (''Wallet not found for user: '' @ ''u1'' @ ''. Call createWallet() first.''))"
    using t [THEN conjunct1, rule_format, OF a] .
  have 2: "getSignerConfig stub_viem (new_WalletService 0) ''u1'' =
     Inl (Error (''Wallet not found for user: '' @ ''u1'' @ ''. Call createWallet() first.''))"
    using t [of "[]", THEN conjunct2, THEN conjunct2, THEN conjunct1, rule_format, OF b] .
  show ?thesis using 1 2 by simp
qed

text \<open>
  C4, as amended. For the \<open>signMessage\<close> function that \<open>getSignerConfig\<close> returns: a
  payload that does not start with \<open>0x\<close> fails with the invalid-format error, whatever
  the account's signer is (no signing takes place); a payload that starts with \<open>0x\<close> is
  handed as it is to the account's \<open>signMessage\<close>, and the result is that method's (or
  the no-such-method error when the account has none).
\<close>

theorem signMessage_prefix_check:
  assumes "getSignerConfig V this i = Inr sc"
  shows "(\<not> startsWith p ''0x'' \<longrightarrow>
       signMessageFn sc p =
         Inl (Error (''Invalid message format: expected hex string with 0x prefix, got: ''
                     @ take 50 p @ ''...'')))
   \<and> (startsWith p ''0x'' \<longrightarrow>
        (\<exists>w. getWallet this i = Some w \<and>
           signMessageFn sc p =
             (case signMessage (account w) of
                None \<Rightarrow> Inl (Error ''Account does not have a signMessage method'')
              | Some sign \<Rightarrow> sign p)))"
  using assms
  by (auto simp: getSignerConfig_def signMessage_closure_def substring0_def
      split: option.splits)

lemma toLowerCase_stub_address: "toLowerCase ''0xADDR0xkey'' = ''0xaddr0xkey''"
  by code_simp

lemma stub_signer_config:
  "getSignerConfig stub_viem (snd (createWallet stub_viem (new_WalletService 0) ''u1'')) ''u1'' =
     Inr \<lparr>authenticatorType = ''EthWallet'',
          authenticator = ''0xaddr0xkey'',
          signMessageFn = signMessage_closure (stub_account ''0xkey'')\<rparr>"
  unfolding stub_first
  by (simp add: getSignerConfig_def getWallet_def stub_viem_def)
     (simp add: stub_account_def toLowerCase_stub_address)

theorem signMessage_prefix_check_witness:
  "signMessage_closure (stub_account ''0xkey'') ''deadbeef'' =
     Inl (Error ''Invalid message format: expected hex string with 0x prefix, got: deadbeef...'')
   \<and> signMessage_closure (stub_account ''0xkey'') ''0xdeadbeef'' = Inr ''sig(0xdeadbeef)''"
proof -
  note t = signMessage_prefix_check [OF stub_signer_config]
  have n: "\<not> startsWith ''deadbeef'' ''0x''" and y: "startsWith ''0xdeadbeef'' ''0x''"
    by (simp_all add: startsWith_def)
  have w: "getWallet (snd (createWallet stub_viem (new_WalletService 0) ''u1'')) ''u1'' =
      Some \<lparr>privateKey = ''0xkey'', account = stub_account ''0xkey''\<rparr>"
    by (simp add: stub_first getWallet_def)
  have 1: "signMessage_closure (stub_account ''0xkey'') ''deadbeef'' =
     Inl (Error (''Invalid message format: expected hex string with 0x prefix, got: ''
                     @ take 50 ''deadbeef'' @ ''...''))"
    using t [of "''deadbeef''", THEN conjunct1, rule_format, OF n] by simp
  have 2: "signMessage_closure (stub_account ''0xkey'') ''0xdeadbeef'' = Inr ''sig(0xdeadbeef)''"
    using t [of "''0xdeadbeef''", THEN conjunct2, rule_format, OF y] w
    by (simp add: stub_account_def stub_sign_def)
  show ?thesis using 1 2 by simp
qed

text \<open>
  C4 as stated fails: \<open>0xZZ\<close> is not a \<open>0x\<close>-prefixed hexadecimal string, yet the
  \<open>signMessage\<close> function of a signer configuration passes it to the account's signer and
  returns the signature.
\<close>

theorem signMessage_accepts_non_hex:
  "\<not> is_0x_hex_string ''0xZZ''
   \<and> getSignerConfig stub_viem
       (snd (createWallet stub_viem (new_WalletService 0) ''u1'')) ''u1'' =
     Inr \<lparr>authenticatorType = ''EthWallet'',
          authenticator = ''0xaddr0xkey'',
          signMessageFn = signMessage_closure (stub_account ''0xkey'')\<rparr>
   \<and> signMessage_closure (stub_account ''0xkey'') ''0xZZ'' = Inr ''sig(0xZZ)''"
  by (simp add: stub_signer_config is_0x_hex_string_def is_hex_digit_def
      signMessage_closure_def startsWith_def stub_account_def stub_sign_def)

section \<open>Properties of the configuration check\<close>

text \<open>
  C6, as amended. \<open>validateConfig\<close> succeeds exactly when the contract checksum is
  non-empty and the fee granter is present and non-empty; an empty checksum raises the
  checksum error, and otherwise a missing or empty fee granter raises the fee-granter
  error. The entry point runs it first: when it fails, \<open>main\<close> exits with code 1 having
  made no call into the library.
\<close>

theorem validateConfig_fail_fast:
  "((validateConfig cfg = Inr ()) =
      (checksum (smartAccountContract cfg) \<noteq> [] \<and> (\<exists>f. feeGranter cfg = Some f \<and> f \<noteq> [])))
   \<and> (checksum (smartAccountContract cfg) = [] \<longrightarrow>
        validateConfig cfg =
          Inl (Error ''CHECKSUM environment variable is required for smart account contract''))
   \<and> (checksum (smartAccountContract cfg) \<noteq> [] \<and>
        (feeGranter cfg = None \<or> feeGranter cfg = Some []) \<longrightarrow>
        validateConfig cfg =
          Inl (Error ''FEE_GRANTER_ADDRESS environment variable is required for signer mode''))
   \<and> (validateConfig cfg \<noteq> Inr () \<longrightarrow> main L V cfg r s rd cb = (ProcessExit 1, []))"
proof -
  have "validateConfig cfg \<noteq> Inr () \<Longrightarrow> main L V cfg r s rd cb = (ProcessExit 1, [])"
    by (cases "validateConfig cfg") (simp_all add: main_def)
  moreover have "(validateConfig cfg = Inr ()) =
      (checksum (smartAccountContract cfg) \<noteq> [] \<and> (\<exists>f. feeGranter cfg = Some f \<and> f \<noteq> []))"
    by (cases "feeGranter cfg") (simp_all add: validateConfig_def falsy_def)
  ultimately show ?thesis
    by (simp add: validateConfig_def falsy_def)
qed

theorem validateConfig_fail_fast_witness:
  "validateConfig app_config_complete = Inr ()
   \<and> validateConfig app_config_no_feeGranter =
       Inl (Error ''FEE_GRANTER_ADDRESS environment variable is required for signer mode'')
   \<and> main stub_abstraxion stub_viem app_config_no_feeGranter 0 1 2 3 = (ProcessExit 1, [])
   \<and> validateConfig (app_config_complete\<lparr>smartAccountContract :=
          \<lparr>codeId = 1, checksum = [], addressPrefix = ''xion''\<rparr>\<rparr>) =
       Inl (Error ''CHECKSUM environment variable is required for smart account contract'')"
proof -
  let ?nc = "app_config_complete\<lparr>smartAccountContract :=
          \<lparr>codeId = 1, checksum = [], addressPrefix = ''xion''\<rparr>\<rparr>"
  have c: "checksum (smartAccountContract app_config_complete) \<noteq> [] \<and>
      (\<exists>f. feeGranter app_config_complete = Some f \<and> f \<noteq> [])"
    by (simp add: app_config_complete_def app_config_no_feeGranter_def)
  have n: "checksum (smartAccountContract app_config_no_feeGranter) \<noteq> [] \<and>
      (feeGranter app_config_no_feeGranter = None \<or> feeGranter app_config_no_feeGranter = Some [])"
    by (simp add: app_config_no_feeGranter_def)
  have k: "checksum (smartAccountContract ?nc) = []"
    by simp
  note t1 = validateConfig_fail_fast [of app_config_complete stub_abstraxion stub_viem 0 1 2 3]
  note t2 = validateConfig_fail_fast [of app_config_no_feeGranter stub_abstraxion stub_viem 0 1 2 3]
  note t3 = validateConfig_fail_fast [of ?nc stub_abstraxion stub_viem 0 1 2 3]
  have 1: "validateConfig app_config_complete = Inr ()"
    using t1 c by blast
  have 2: "validateConfig app_config_no_feeGranter =
       Inl (Error ''FEE_GRANTER_ADDRESS environment variable is required for signer mode'')"
    using t2 [THEN conjunct2, THEN conjunct2, THEN conjunct1, rule_format, OF n] .
  have 3: "main stub_abstraxion stub_viem app_config_no_feeGranter 0 1 2 3 = (ProcessExit 1, [])"
    using t2 [THEN conjunct2, THEN conjunct2, THEN conjunct2, rule_format] 2 by simp
  have 4: "validateConfig ?nc =
       Inl (Error ''CHECKSUM environment variable is required for smart account contract'')"
    using t3 [THEN conjunct2, THEN conjunct1, rule_format, OF k] .
  show ?thesis using 1 2 3 4 by (intro conjI)
qed

text \<open>
  C6 as stated fails: with a configuration that has no fee granter, constructing the
  service raises nothing, and \<open>initialize()\<close> raises nothing of its own either (with a
  library that accepts the configuration it runs through to the controller's
  \<open>initialize()\<close>).
\<close>

theorem service_does_not_validate:
  "validateConfig app_config_no_feeGranter =
       Inl (Error ''FEE_GRANTER_ADDRESS environment variable is required for signer mode'')
   \<and> feeGranter (service_config_of app_config_no_feeGranter 3) = None
   \<and> (new_AbstraxionService (service_config_of app_config_no_feeGranter 3) 1 2
        :: nat AccountState AbstraxionService) =
     \<lparr>controller = None, storageStrategy = 1, redirectStrategy = 2,
      config = service_config_of app_config_no_feeGranter 3\<rparr>
   \<and> initialize stub_abstraxion
        (new_AbstraxionService (service_config_of app_config_no_feeGranter 3) 1 2) =
     (Inr (),
      \<lparr>controller = Some StIdle, storageStrategy = 1, redirectStrategy = 2,
       config = service_config_of app_config_no_feeGranter 3\<rparr>,
      [NormalizeAbstraxionConfig, NewAbstraxionAuth, ConfigureAbstraxionInstance, FromConfig,
       ControllerInitialize])"
  by (simp add: validateConfig_def falsy_def app_config_no_feeGranter_def service_config_of_def
      new_AbstraxionService_def initialize_def stub_abstraxion_def)

end
